theory Spec2Isabelle
  imports Main
begin

section \<open>The play state of the YouTube media player (apps/youtube/mp)\<close>

text \<open>
  Modelled from the spec: the constant \<^verbatim>\<open>STATE_SEEKING\<close> is used by \<^verbatim>\<open>player.go\<close> but
  its declaration is not in the source files at hand; \<^verbatim>\<open>mp.go\<close> declares the other
  four states as consecutive constants (\<^verbatim>\<open>STATE_STOPPED State = iota\<close>, the zero value
  of the type). The specification lists Seeking as the fifth state.
\<close>

datatype State =
    STATE_STOPPED
  | STATE_PLAYING
  | STATE_PAUSED
  | STATE_BUFFERING
  | STATE_SEEKING

text \<open>
  Modelled from the spec: the fields \<^verbatim>\<open>previousState\<close>, \<^verbatim>\<open>nextState\<close> and
  \<^verbatim>\<open>newVolume\<close> of the struct \<^verbatim>\<open>PlayState\<close> are read and written by \<^verbatim>\<open>player.go\<close>,
  but the declaration in \<^verbatim>\<open>mp.go\<close> has \<^verbatim>\<open>Playlist\<close>, \<^verbatim>\<open>Index\<close>, \<^verbatim>\<open>State\<close>,
  \<^verbatim>\<open>Volume\<close> and \<^verbatim>\<open>bufferingPosition\<close> only. Following the data model of the
  specification, \<open>previousState\<close> is the state held before the last transition,
  \<open>nextState\<close> is an optional pending target state (\<open>None\<close> stands for the value
  \<^verbatim>\<open>-1\<close> that \<^verbatim>\<open>run\<close> stores initially), and \<open>newVolume\<close> is the flag "the volume still
  has to be applied to the backend".

  \<^verbatim>\<open>Index\<close>, \<^verbatim>\<open>Volume\<close> and the positions (\<^verbatim>\<open>time.Duration\<close>) are Go integers,
  modelled as \<open>int\<close>. Positions are only compared and copied. The two additions of
  the code, \<^verbatim>\<open>ps.Volume += delta\<close> in \<^verbatim>\<open>ChangeVolume\<close> and \<^verbatim>\<open>ps.Index+1\<close> /
  \<^verbatim>\<open>ps.Index++\<close> in \<^verbatim>\<open>nextVideo\<close>, are modelled with 64-bit wrap-around
  (\<open>go_int_add\<close>).
\<close>

record PlayState =
  Playlist :: "string list"
  Index :: int
  State :: State
  Volume :: int
  bufferingPosition :: int
  previousState :: State
  nextState :: "State option"
  newVolume :: bool

text \<open>The lines that the handlers write to the log.\<close>

datatype LogMsg =
    Video_not_needed_anymore string
  | WARNING_empty_stream_URL
  | WARNING_videoId_exists_twice_in_playlist
  | Warning_pause_ignored State
  | Warning_invalid_index_or_empty_playlist
  | Warning_resume_ignored State
  | Warning_seek_ignored State

text \<open>
  Everything a handler does besides updating the play state is recorded, in order, in a
  trace: the commands sent to the backend \<^verbatim>\<open>p.player\<close>, the values sent on channels, the
  log lines and the goroutines started.
\<close>

datatype Effect =
    player_stop
  | player_play string int int
  | player_pause
  | player_resume
  | player_setPosition int
  | player_setVolume int
  | player_quit
  | vg_Quit
  | stateChange_send State int
  | volumeChan_send int
  | playlistChan_send "string list" int int State
  | log_Print LogMsg
  | go_GetStream_callback string int
  | go_prefetchVideoStream string
  | go_GetStream string
  | close_stateChange
  | close_playstateChan

text \<open>The ways a handler can abort (a Go panic takes the whole process down).\<close>

datatype Panic =
    index_out_of_range
  | getPosition_error
  | got_position_lt_0
  | empty_playlist_while_playing
  | current_video_does_not_exist_in_new_playlist
  | unknown_nextState

text \<open>
  The media player \<^verbatim>\<open>p\<close> together with the play state that \<^verbatim>\<open>run\<close> owns:
  \<open>ps\<close> is the local variable \<^verbatim>\<open>ps\<close> of \<^verbatim>\<open>run\<close> (handed to one callback at a
  time through \<^verbatim>\<open>p.playstateChan\<close>), \<open>playstateChan_closed\<close> says that \<^verbatim>\<open>run\<close> has
  closed that channel, \<open>player_position\<close> is what \<^verbatim>\<open>p.player.getPosition()\<close> would
  return now (\<open>None\<close> for an error), and \<open>trace\<close> is the list of effects so far.
\<close>

record MediaPlayer =
  ps :: PlayState
  playstateChan_closed :: bool
  player_position :: "int option"
  trace :: "Effect list"

definition emit :: "Effect \<Rightarrow> MediaPlayer \<Rightarrow> MediaPlayer" where
  "emit e p = p\<lparr>trace := trace p @ [e]\<rparr>"

text \<open>Indexing a Go slice: out of range is a run-time panic.\<close>

definition go_index :: "string list \<Rightarrow> int \<Rightarrow> Panic + string" where
  "go_index xs i =
     (if 0 \<le> i \<and> i < int (length xs) then Inr (xs ! nat i) else Inl index_out_of_range)"

text \<open>Addition on Go's 64-bit \<^verbatim>\<open>int\<close>: the result wraps around.\<close>

definition go_int_add :: "int \<Rightarrow> int \<Rightarrow> int" where
  "go_int_add a b = (a + b + 2 ^ 63) mod 2 ^ 64 - 2 ^ 63"

text \<open>
  \<^verbatim>\<open>getPlayState\<close>: receive the play state from \<^verbatim>\<open>p.playstateChan\<close>, run the callback on
  it and send it back. When the channel is closed the call returns at once.
\<close>

definition getPlayState ::
  "(MediaPlayer \<Rightarrow> Panic + MediaPlayer) \<Rightarrow> MediaPlayer \<Rightarrow> Panic + MediaPlayer" where
  "getPlayState callback p = (if playstateChan_closed p then Inr p else callback p)"

subsection \<open>The current and the next video\<close>

text \<open>
  Modelled from the spec: the methods \<^verbatim>\<open>PlayState.Video\<close> and \<^verbatim>\<open>PlayState.NextVideo\<close>
  are called by \<^verbatim>\<open>player.go\<close> but are not in the source files at hand. The
  specification describes the check of a finished stream resolution as "identifier
  equality against current index" and the next track as "index+1, if any"; the callers
  compare the result of \<^verbatim>\<open>NextVideo\<close> with the empty string to recognise "no next
  track". So \<open>Video\<close> is the identifier at \<open>Index\<close> and \<open>NextVideo\<close> the one at
  \<open>Index + 1\<close> (the spec's index+1, on the integers), each the empty string when the
  playlist has no such entry.
\<close>

definition Video :: "PlayState \<Rightarrow> string" where
  "Video s =
     (if 0 \<le> Index s \<and> Index s < int (length (Playlist s))
      then Playlist s ! nat (Index s) else [])"

definition NextVideo :: "PlayState \<Rightarrow> string" where
  "NextVideo s =
     (if 0 \<le> Index s + 1 \<and> Index s + 1 < int (length (Playlist s))
      then Playlist s ! nat (Index s + 1) else [])"

subsection \<open>Positions and state changes\<close>

definition player_getPosition :: "MediaPlayer \<Rightarrow> Panic + int" where
  "player_getPosition p =
     (case player_position p of None \<Rightarrow> Inl getPosition_error | Some x \<Rightarrow> Inr x)"

text \<open>
  \<^verbatim>\<open>getPosition\<close>. The \<^verbatim>\<open>default: panic("unknown state")\<close> branch of the Go switch has
  no counterpart: the datatype has the five states only.
\<close>

definition getPosition :: "MediaPlayer \<Rightarrow> PlayState \<Rightarrow> Panic + int" where
  "getPosition p s =
     (case (case State s of
              STATE_STOPPED \<Rightarrow> Inr 0
            | STATE_BUFFERING \<Rightarrow> Inr (bufferingPosition s)
            | STATE_SEEKING \<Rightarrow> Inr (bufferingPosition s)
            | STATE_PLAYING \<Rightarrow> player_getPosition p
            | STATE_PAUSED \<Rightarrow> player_getPosition p) of
        Inl e \<Rightarrow> Inl e
      | Inr position \<Rightarrow> if position < 0 then Inl got_position_lt_0 else Inr position)"

text \<open>\<^verbatim>\<open>setPlayState\<close> updates the play state and sends the event.\<close>

definition setPlayState :: "State \<Rightarrow> int \<Rightarrow> MediaPlayer \<Rightarrow> Panic + MediaPlayer" where
  "setPlayState state position p =
     (let position1 = (if State (ps p) = STATE_SEEKING then bufferingPosition (ps p)
                       else position);
          s1 = (ps p)\<lparr>previousState := State (ps p), State := state\<rparr>;
          s2 = s1\<lparr>bufferingPosition :=
                    (if state = STATE_BUFFERING \<or> state = STATE_SEEKING then position1
                     else - 1)\<rparr>
      in case (if position1 = - 1 then getPosition p s2 else Inr position1) of
           Inl e \<Rightarrow> Inl e
         | Inr position2 \<Rightarrow> Inr (emit (stateChange_send state position2) (p\<lparr>ps := s2\<rparr>)))"

subsection \<open>Starting a video and advancing\<close>

text \<open>
  \<^verbatim>\<open>startPlaying\<close> up to the point where it starts the goroutine that resolves the
  stream; the goroutine is recorded as \<open>go_GetStream_callback videoId position\<close>.
\<close>

definition startPlaying :: "int \<Rightarrow> MediaPlayer \<Rightarrow> Panic + MediaPlayer" where
  "startPlaying position p =
     (let p1 = (if State (ps p) = STATE_PLAYING then emit player_stop p else p)
      in case setPlayState STATE_BUFFERING position p1 of
           Inl e \<Rightarrow> Inl e
         | Inr p2 \<Rightarrow>
             (case go_index (Playlist (ps p2)) (Index (ps p2)) of
                Inl e \<Rightarrow> Inl e
              | Inr videoId \<Rightarrow> Inr (emit (go_GetStream_callback videoId position) p2)))"

definition nextVideo :: "MediaPlayer \<Rightarrow> Panic + MediaPlayer" where
  "nextVideo p =
     (if go_int_add (Index (ps p)) 1 < int (length (Playlist (ps p)))
      then startPlaying 0
             (p\<lparr>ps := (ps p)\<lparr>Index := go_int_add (Index (ps p)) 1,
                              State := STATE_STOPPED\<rparr>\<rparr>)
      else setPlayState STATE_STOPPED 0 p)"

text \<open>
  The rest of the goroutine of \<^verbatim>\<open>startPlaying\<close>: \<^verbatim>\<open>p.vg.GetStream(videoId)\<close> has
  returned \<open>streamUrl\<close>, and the callback runs under \<^verbatim>\<open>getPlayState\<close>.
\<close>

definition startPlaying_callback ::
  "string \<Rightarrow> int \<Rightarrow> string \<Rightarrow> MediaPlayer \<Rightarrow> Panic + MediaPlayer" where
  "startPlaying_callback videoId position streamUrl =
     getPlayState (\<lambda>p.
       if Video (ps p) \<noteq> videoId
       then Inr (emit (log_Print (Video_not_needed_anymore videoId)) p)
       else if streamUrl = []
       then nextVideo (emit (log_Print WARNING_empty_stream_URL) p)
       else
         (let volume = (if newVolume (ps p) then Volume (ps p) else - 1);
              p1 = (if newVolume (ps p) then p\<lparr>ps := (ps p)\<lparr>newVolume := False\<rparr>\<rparr> else p);
              p2 = emit (player_play streamUrl position volume) p1
          in Inr (emit (go_prefetchVideoStream (NextVideo (ps p2))) p2)))"

text \<open>
  \<^verbatim>\<open>prefetchVideoStream\<close>, from the moment its sleep is over: the callback checks that
  the next video is still the one it was started for.
\<close>

definition prefetchVideoStream :: "string \<Rightarrow> MediaPlayer \<Rightarrow> Panic + MediaPlayer" where
  "prefetchVideoStream videoId p =
     (if videoId = [] then Inr p
      else getPlayState (\<lambda>p.
             (let next = NextVideo (ps p)
              in if next = [] \<or> next \<noteq> videoId then Inr p
                 else Inr (emit (go_GetStream next) p))) p)"

subsection \<open>Playlists\<close>

text \<open>
  The loop of \<^verbatim>\<open>setPlaylistIndex\<close> over the entries from position \<open>i\<close> on; the result
  is \<^verbatim>\<open>newIndex\<close> and whether the warning was logged (the loop breaks there).
\<close>

fun setPlaylistIndex_loop :: "string \<Rightarrow> string list \<Rightarrow> int \<Rightarrow> int \<Rightarrow> int \<times> bool" where
  "setPlaylistIndex_loop videoId [] i newIndex = (newIndex, False)"
| "setPlaylistIndex_loop videoId (v # vs) i newIndex =
     (if v = videoId
      then (if newIndex \<ge> 0 then (newIndex, True)
            else setPlaylistIndex_loop videoId vs (i + 1) i)
      else setPlaylistIndex_loop videoId vs (i + 1) newIndex)"

definition setPlaylistIndex :: "string \<Rightarrow> MediaPlayer \<Rightarrow> Panic + MediaPlayer" where
  "setPlaylistIndex videoId p =
     (case setPlaylistIndex_loop videoId (Playlist (ps p)) 0 (- 1) of
        (newIndex, warned) \<Rightarrow>
          (let p1 = (if warned
                     then emit (log_Print WARNING_videoId_exists_twice_in_playlist) p
                     else p)
           in if newIndex = - 1 then Inl current_video_does_not_exist_in_new_playlist
              else Inr (p1\<lparr>ps := (ps p1)\<lparr>Index := newIndex\<rparr>\<rparr>)))"

definition updatePlaylist :: "string list \<Rightarrow> MediaPlayer \<Rightarrow> Panic + MediaPlayer" where
  "updatePlaylist playlist p =
     (let nextVideo = NextVideo (ps p)
      in case (if length (Playlist (ps p)) = 0
               then (if State (ps p) = STATE_PLAYING then Inl empty_playlist_while_playing
                     else
                       (let p1 = p\<lparr>ps := (ps p)\<lparr>Playlist := playlist\<rparr>\<rparr>
                        in if Index (ps p1) \<ge> int (length playlist)
                           then Inr (p1\<lparr>ps := (ps p1)\<lparr>Index := int (length playlist) - 1\<rparr>\<rparr>)
                           else Inr p1))
               else (case go_index (Playlist (ps p)) (Index (ps p)) of
                       Inl e \<Rightarrow> Inl e
                     | Inr videoId \<Rightarrow>
                         setPlaylistIndex videoId (p\<lparr>ps := (ps p)\<lparr>Playlist := playlist\<rparr>\<rparr>))) of
           Inl e \<Rightarrow> Inl e
         | Inr p2 \<Rightarrow>
             if NextVideo (ps p2) \<noteq> nextVideo
             then Inr (emit (go_prefetchVideoStream (NextVideo (ps p2))) p2)
             else Inr p2)"

definition UpdatePlaylist :: "string list \<Rightarrow> MediaPlayer \<Rightarrow> Panic + MediaPlayer" where
  "UpdatePlaylist playlist = getPlayState (updatePlaylist playlist)"

subsection \<open>Stopping\<close>

definition stop :: "MediaPlayer \<Rightarrow> Panic + MediaPlayer" where
  "stop p = Inr (emit player_stop (p\<lparr>ps := (ps p)\<lparr>Playlist := []\<rparr>\<rparr>))"

definition Stop :: "MediaPlayer \<Rightarrow> Panic + MediaPlayer" where
  "Stop p = getPlayState stop p"

subsection \<open>Setting the play state and the video\<close>

text \<open>
  \<^verbatim>\<open>SetPlaystate\<close>. The condition of its first \<^verbatim>\<open>if\<close> is evaluated from left to
  right and stops at the first false conjunct, so the two slices are indexed only when
  the three tests before hold.
\<close>

definition SetPlaystate ::
  "string list \<Rightarrow> int \<Rightarrow> int \<Rightarrow> MediaPlayer \<Rightarrow> Panic + MediaPlayer" where
  "SetPlaystate playlist index position =
     getPlayState (\<lambda>p.
       (let rest =
              (let p1 = p\<lparr>ps := (ps p)\<lparr>Playlist := playlist, Index := index\<rparr>\<rparr>
               in if length (Playlist (ps p1)) > 0 then startPlaying position p1
                  else stop p1)
        in if State (ps p) = STATE_BUFFERING \<and> bufferingPosition (ps p) = position
              \<and> Index (ps p) < int (length (Playlist (ps p)))
           then (case go_index playlist index of
                   Inl e \<Rightarrow> Inl e
                 | Inr a \<Rightarrow>
                     (case go_index (Playlist (ps p)) (Index (ps p)) of
                        Inl e \<Rightarrow> Inl e
                      | Inr b \<Rightarrow> if a = b then updatePlaylist playlist p else rest))
           else rest))"

definition SetVideo :: "string \<Rightarrow> int \<Rightarrow> MediaPlayer \<Rightarrow> Panic + MediaPlayer" where
  "SetVideo videoId position =
     getPlayState (\<lambda>p.
       case setPlaylistIndex videoId p of
         Inl e \<Rightarrow> Inl e
       | Inr p1 \<Rightarrow> startPlaying position p1)"

definition RequestPlaylist :: "MediaPlayer \<Rightarrow> Panic + MediaPlayer" where
  "RequestPlaylist =
     getPlayState (\<lambda>p.
       case getPosition p (ps p) of
         Inl e \<Rightarrow> Inl e
       | Inr position \<Rightarrow>
           Inr (emit (playlistChan_send (Playlist (ps p)) (Index (ps p)) position
                        (State (ps p))) p))"

subsection \<open>Pause, play and seek\<close>

definition Pause :: "MediaPlayer \<Rightarrow> Panic + MediaPlayer" where
  "Pause =
     getPlayState (\<lambda>p.
       if State (ps p) = STATE_SEEKING
       then Inr (p\<lparr>ps := (ps p)\<lparr>nextState := Some STATE_PAUSED\<rparr>\<rparr>)
       else if State (ps p) \<noteq> STATE_PLAYING
       then Inr (emit (log_Print (Warning_pause_ignored (State (ps p)))) p)
       else Inr (emit player_pause p))"

definition Play :: "MediaPlayer \<Rightarrow> Panic + MediaPlayer" where
  "Play =
     getPlayState (\<lambda>p.
       if State (ps p) = STATE_STOPPED
       then (if Index (ps p) \<ge> int (length (Playlist (ps p)))
             then Inr (emit (log_Print Warning_invalid_index_or_empty_playlist) p)
             else startPlaying 0 p)
       else if State (ps p) = STATE_SEEKING
       then Inr (p\<lparr>ps := (ps p)\<lparr>nextState := Some STATE_PLAYING\<rparr>\<rparr>)
       else if State (ps p) \<noteq> STATE_PAUSED
       then Inr (emit (log_Print (Warning_resume_ignored (State (ps p)))) p)
       else Inr (emit player_resume p))"

definition Seek :: "int \<Rightarrow> MediaPlayer \<Rightarrow> Panic + MediaPlayer" where
  "Seek position =
     getPlayState (\<lambda>p.
       if State (ps p) = STATE_STOPPED then startPlaying position p
       else if State (ps p) = STATE_PAUSED \<or> State (ps p) = STATE_PLAYING
       then (case setPlayState STATE_SEEKING position p of
               Inl e \<Rightarrow> Inl e
             | Inr p1 \<Rightarrow> Inr (emit (player_setPosition position) p1))
       else Inr (emit (log_Print (Warning_seek_ignored (State (ps p)))) p))"

subsection \<open>Volume\<close>

definition applyVolume :: "MediaPlayer \<Rightarrow> Panic + MediaPlayer" where
  "applyVolume p =
     (let p1 = (if State (ps p) = STATE_PLAYING \<or> State (ps p) = STATE_PAUSED
                then emit (player_setVolume (Volume (ps p))) p
                else p\<lparr>ps := (ps p)\<lparr>newVolume := True\<rparr>\<rparr>)
      in Inr (emit (volumeChan_send (Volume (ps p1))) p1))"

definition SetVolume :: "int \<Rightarrow> MediaPlayer \<Rightarrow> Panic + MediaPlayer" where
  "SetVolume volume =
     getPlayState (\<lambda>p. applyVolume (p\<lparr>ps := (ps p)\<lparr>Volume := volume\<rparr>\<rparr>))"

definition ChangeVolume :: "int \<Rightarrow> MediaPlayer \<Rightarrow> Panic + MediaPlayer" where
  "ChangeVolume delta =
     getPlayState (\<lambda>p.
       (let v0 = go_int_add (Volume (ps p)) delta;
            v1 = (if v0 < 0 then 0 else v0);
            v2 = (if v1 > 100 then 100 else v1)
        in applyVolume (p\<lparr>ps := (ps p)\<lparr>Volume := v2\<rparr>\<rparr>)))"

definition RequestVolume :: "MediaPlayer \<Rightarrow> Panic + MediaPlayer" where
  "RequestVolume = getPlayState (\<lambda>p. Inr (emit (volumeChan_send (Volume (ps p))) p))"

definition Quit :: "MediaPlayer \<Rightarrow> Panic + MediaPlayer" where
  "Quit = getPlayState (\<lambda>p. Inr (emit vg_Quit (emit player_quit p)))"

subsection \<open>The main loop\<close>

text \<open>
  \<^verbatim>\<open>run\<close> starts from the zero \<^verbatim>\<open>PlayState\<close> with the backend's initial volume and
  \<^verbatim>\<open>nextState = -1\<close>.
\<close>

definition run_init :: "int \<Rightarrow> MediaPlayer" where
  "run_init initialVolume =
     \<lparr>ps = \<lparr>Playlist = [], Index = 0, State = STATE_STOPPED, Volume = initialVolume,
            bufferingPosition = 0, previousState = STATE_STOPPED, nextState = None,
            newVolume = False\<rparr>,
      playstateChan_closed = False, player_position = None, trace = []\<rparr>"

text \<open>
  One turn of the \<^verbatim>\<open>select\<close> in \<^verbatim>\<open>run\<close> that receives from \<^verbatim>\<open>playerEventChan\<close>:
  \<open>None\<close> is the closed channel, \<open>Some event\<close> a backend event. After \<^verbatim>\<open>run\<close> has
  returned nothing is received any more.
\<close>

definition run_event :: "State option \<Rightarrow> MediaPlayer \<Rightarrow> Panic + MediaPlayer" where
  "run_event ev p =
     (if playstateChan_closed p then Inr p
      else case ev of
        None \<Rightarrow>
          Inr ((emit close_playstateChan (emit close_stateChange p))
                 \<lparr>playstateChan_closed := True\<rparr>)
      | Some STATE_PLAYING \<Rightarrow>
          (let p1 = (if newVolume (ps p)
                     then emit (player_setVolume (Volume (ps p)))
                            (p\<lparr>ps := (ps p)\<lparr>newVolume := False\<rparr>\<rparr>)
                     else p)
           in if State (ps p1) = STATE_SEEKING
              then (let els = setPlayState (previousState (ps p1)) (- 1) p1
                    in case nextState (ps p1) of
                         None \<Rightarrow> els
                       | Some state \<Rightarrow>
                           if previousState (ps p1) \<noteq> state
                           then (let p2 = p1\<lparr>ps := (ps p1)\<lparr>State := previousState (ps p1),
                                                            nextState := None\<rparr>\<rparr>
                                 in case state of
                                      STATE_PLAYING \<Rightarrow> Inr (emit player_resume p2)
                                    | STATE_PAUSED \<Rightarrow> Inr (emit player_pause p2)
                                    | _ \<Rightarrow> Inl unknown_nextState)
                           else els)
              else setPlayState STATE_PLAYING (- 1) p1)
      | Some STATE_PAUSED \<Rightarrow>
          if State (ps p) = STATE_BUFFERING then Inr p
          else setPlayState STATE_PAUSED (- 1) p
      | Some STATE_STOPPED \<Rightarrow>
          if State (ps p) = STATE_BUFFERING then Inr p
          else nextVideo p
      | Some _ \<Rightarrow> Inr p)"

subsection \<open>Runs of the coordinator\<close>

text \<open>
  Everything that can happen to the coordinator, one at a time: a call of a public
  method, a turn of the main loop on the backend's event channel, the completion of a
  goroutine started earlier, or the backend's playback position moving.
\<close>

datatype Input =
    Call_Quit
  | Call_SetPlaystate "string list" int int
  | Call_UpdatePlaylist "string list"
  | Call_SetVideo string int
  | Call_RequestPlaylist
  | Call_Pause
  | Call_Play
  | Call_Seek int
  | Call_SetVolume int
  | Call_ChangeVolume int
  | Call_RequestVolume
  | Call_Stop
  | Event "State option"
  | Resolved string int string
  | Prefetch string
  | Backend_position "int option"

fun handle :: "Input \<Rightarrow> MediaPlayer \<Rightarrow> Panic + MediaPlayer" where
  "handle Call_Quit p = Quit p"
| "handle (Call_SetPlaystate playlist index position) p = SetPlaystate playlist index position p"
| "handle (Call_UpdatePlaylist playlist) p = UpdatePlaylist playlist p"
| "handle (Call_SetVideo videoId position) p = SetVideo videoId position p"
| "handle Call_RequestPlaylist p = RequestPlaylist p"
| "handle Call_Pause p = Pause p"
| "handle Call_Play p = Play p"
| "handle (Call_Seek position) p = Seek position p"
| "handle (Call_SetVolume volume) p = SetVolume volume p"
| "handle (Call_ChangeVolume delta) p = ChangeVolume delta p"
| "handle Call_RequestVolume p = RequestVolume p"
| "handle Call_Stop p = Stop p"
| "handle (Event ev) p = run_event ev p"
| "handle (Resolved videoId position streamUrl) p =
     startPlaying_callback videoId position streamUrl p"
| "handle (Prefetch videoId) p = prefetchVideoStream videoId p"
| "handle (Backend_position x) p = Inr (p\<lparr>player_position := x\<rparr>)"

fun run_inputs :: "Input list \<Rightarrow> MediaPlayer \<Rightarrow> Panic + MediaPlayer" where
  "run_inputs [] p = Inr p"
| "run_inputs (i # ins) p =
     (case handle i p of Inl e \<Rightarrow> Inl e | Inr p1 \<Rightarrow> run_inputs ins p1)"

subsection \<open>Conditions on inputs\<close>

text \<open>The argument of a \<^verbatim>\<open>SetVolume\<close> call lies in the documented range 0-100.\<close>

fun SetVolume_arg_in_range :: "Input \<Rightarrow> bool" where
  "SetVolume_arg_in_range (Call_SetVolume volume) = (0 \<le> volume \<and> volume \<le> 100)"
| "SetVolume_arg_in_range _ = True"

text \<open>
  The inputs that ask for the play state through \<^verbatim>\<open>getPlayState\<close>: the calls of the
  public methods and the callbacks of the goroutines.
\<close>

fun requests_PlayState :: "Input \<Rightarrow> bool" where
  "requests_PlayState (Event ev) = False"
| "requests_PlayState (Backend_position x) = False"
| "requests_PlayState _ = True"


text \<open>
  While the state is Buffering or Seeking, \<^verbatim>\<open>bufferingPosition\<close> holds a position.
\<close>

definition bufferingPosition_set :: "PlayState \<Rightarrow> bool" where
  "bufferingPosition_set s =
     (State s = STATE_BUFFERING \<or> State s = STATE_SEEKING \<longrightarrow> 0 \<le> bufferingPosition s)"

section \<open>Properties\<close>

text \<open>The defining equations, for evaluating the handlers on concrete inputs.\<close>

lemmas eval_defs =
  Quit_def SetPlaystate_def UpdatePlaylist_def SetVideo_def RequestPlaylist_def Pause_def
  Play_def Seek_def SetVolume_def ChangeVolume_def RequestVolume_def Stop_def stop_def
  applyVolume_def startPlaying_callback_def prefetchVideoStream_def getPlayState_def
  Let_def emit_def run_init_def go_int_add_def setPlayState_def startPlaying_def
  nextVideo_def getPosition_def player_getPosition_def go_index_def Video_def
  NextVideo_def setPlaylistIndex_def updatePlaylist_def run_event_def

subsection \<open>What the handlers leave alone: the volume\<close>

lemma setPlayState_Volume:
  "setPlayState state position p = Inr p' \<Longrightarrow> Volume (ps p') = Volume (ps p)"
  by (auto simp: setPlayState_def Let_def emit_def split: sum.splits if_splits)

lemma startPlaying_Volume:
  "startPlaying position p = Inr p' \<Longrightarrow> Volume (ps p') = Volume (ps p)"
  by (auto simp: startPlaying_def Let_def emit_def split: sum.splits if_splits
      dest!: setPlayState_Volume)

lemma nextVideo_Volume:
  "nextVideo p = Inr p' \<Longrightarrow> Volume (ps p') = Volume (ps p)"
  by (auto simp: nextVideo_def split: if_splits
      dest!: setPlayState_Volume startPlaying_Volume)

lemma setPlaylistIndex_Volume:
  "setPlaylistIndex v p = Inr p' \<Longrightarrow> Volume (ps p') = Volume (ps p)"
  by (auto simp: setPlaylistIndex_def Let_def emit_def split: prod.splits if_splits)

lemma updatePlaylist_Volume:
  "updatePlaylist v p = Inr p' \<Longrightarrow> Volume (ps p') = Volume (ps p)"
  by (auto simp: updatePlaylist_def Let_def emit_def split: sum.splits if_splits
      dest!: setPlaylistIndex_Volume)

lemma run_event_Volume:
  "run_event ev p = Inr p' \<Longrightarrow> Volume (ps p') = Volume (ps p)"
  by (auto simp: run_event_def Let_def emit_def
      split: option.splits State.splits if_splits
      dest!: setPlayState_Volume nextVideo_Volume)

text \<open>The volume after one input, whatever the input is.\<close>

lemma handle_Volume:
  "handle i p = Inr p' \<Longrightarrow>
     Volume (ps p') =
       (if playstateChan_closed p then Volume (ps p)
        else case i of
          Call_SetVolume volume \<Rightarrow> volume
        | Call_ChangeVolume delta \<Rightarrow>
            (let v0 = go_int_add (Volume (ps p)) delta
             in if v0 < 0 then 0 else if v0 > 100 then 100 else v0)
        | _ \<Rightarrow> Volume (ps p))"
  by (cases i)
    (auto simp: Quit_def SetPlaystate_def UpdatePlaylist_def SetVideo_def
      RequestPlaylist_def Pause_def Play_def Seek_def SetVolume_def ChangeVolume_def
      RequestVolume_def Stop_def stop_def applyVolume_def startPlaying_callback_def
      prefetchVideoStream_def getPlayState_def Let_def emit_def
      split: sum.splits if_splits
      dest!: setPlayState_Volume nextVideo_Volume startPlaying_Volume
        updatePlaylist_Volume setPlaylistIndex_Volume run_event_Volume)

lemma handle_Volume_range:
  assumes "handle i p = Inr p'" and "SetVolume_arg_in_range i"
    and "0 \<le> Volume (ps p) \<and> Volume (ps p) \<le> 100"
  shows "0 \<le> Volume (ps p') \<and> Volume (ps p') \<le> 100"
  using handle_Volume [OF assms(1)] assms(2,3)
  by (cases i) (auto simp: Let_def)

lemma run_inputs_Volume_range:
  "run_inputs ins p = Inr p' \<Longrightarrow> list_all SetVolume_arg_in_range ins \<Longrightarrow>
   0 \<le> Volume (ps p) \<and> Volume (ps p) \<le> 100 \<Longrightarrow>
   0 \<le> Volume (ps p') \<and> Volume (ps p') \<le> 100"
proof (induction ins arbitrary: p)
  case Nil
  then show ?case by simp
next
  case (Cons i ins)
  from Cons.prems(1) obtain p1 where h: "handle i p = Inr p1"
    and r: "run_inputs ins p1 = Inr p'"
    by (auto split: sum.splits)
  from Cons.prems(2) have "SetVolume_arg_in_range i" and "list_all SetVolume_arg_in_range ins"
    by simp_all
  with handle_Volume_range [OF h _ Cons.prems(3)] Cons.IH [OF r] show ?case
    by blast
qed

subsection \<open>After the shutdown\<close>

lemma handle_closed:
  "playstateChan_closed p \<Longrightarrow> requests_PlayState i \<Longrightarrow> handle i p = Inr p"
  by (cases i)
    (simp_all add: Quit_def SetPlaystate_def UpdatePlaylist_def SetVideo_def
      RequestPlaylist_def Pause_def Play_def Seek_def SetVolume_def ChangeVolume_def
      RequestVolume_def Stop_def startPlaying_callback_def prefetchVideoStream_def
      getPlayState_def)

lemma run_inputs_closed:
  "playstateChan_closed p \<Longrightarrow> list_all requests_PlayState ins \<Longrightarrow> run_inputs ins p = Inr p"
  by (induction ins) (simp_all add: handle_closed)

lemma run_event_None:
  "run_event None p = Inr p' \<Longrightarrow> playstateChan_closed p'"
  by (auto simp: run_event_def emit_def split: if_splits)

subsection \<open>Relocating the current video in a new playlist\<close>

lemma count_list_pos: "(0 < count_list xs x) = (x \<in> set xs)"
  by (induction xs) auto

lemma setPlaylistIndex_loop_found:
  "0 \<le> newIndex \<Longrightarrow>
   setPlaylistIndex_loop videoId vs i newIndex = (newIndex, videoId \<in> set vs)"
  by (induction vs arbitrary: i) auto

lemma setPlaylistIndex_loop_absent:
  "videoId \<notin> set vs \<Longrightarrow> setPlaylistIndex_loop videoId vs i newIndex = (newIndex, False)"
  by (induction vs arbitrary: i) auto

lemma setPlaylistIndex_loop_first:
  "videoId \<in> set vs \<Longrightarrow> newIndex < 0 \<Longrightarrow> 0 \<le> i \<Longrightarrow>
   setPlaylistIndex_loop videoId vs i newIndex
     = (i + int (length (takeWhile (\<lambda>v. v \<noteq> videoId) vs)), 1 < count_list vs videoId)"
proof (induction vs arbitrary: i)
  case Nil
  then show ?case by simp
next
  case (Cons v vs)
  show ?case
  proof (cases "v = videoId")
    case True
    with Cons.prems show ?thesis
      by (simp add: setPlaylistIndex_loop_found count_list_pos)
  next
    case False
    with Cons.prems have "videoId \<in> set vs" by simp
    from Cons.IH [OF this Cons.prems(2), of "i + 1"] Cons.prems(3) False show ?thesis
      by simp
  qed
qed

lemma setPlaylistIndex_present:
  assumes "videoId \<in> set (Playlist (ps p))"
  shows "setPlaylistIndex videoId p
     = Inr (p\<lparr>ps := (ps p)\<lparr>Index := int (length (takeWhile (\<lambda>v. v \<noteq> videoId) (Playlist (ps p))))\<rparr>,
             trace := trace p @
               (if 1 < count_list (Playlist (ps p)) videoId
                then [log_Print WARNING_videoId_exists_twice_in_playlist] else [])\<rparr>)"
  using setPlaylistIndex_loop_first [OF assms, of "- 1" 0]
  by (simp add: setPlaylistIndex_def Let_def emit_def)

lemma setPlaylistIndex_absent:
  assumes "videoId \<notin> set (Playlist (ps p))"
  shows "setPlaylistIndex videoId p = Inl current_video_does_not_exist_in_new_playlist"
  using setPlaylistIndex_loop_absent [OF assms, of 0 "- 1"]
  by (simp add: setPlaylistIndex_def Let_def emit_def)

lemma first_occurrence:
  "x \<in> set xs \<Longrightarrow>
     length (takeWhile (\<lambda>v. v \<noteq> x) xs) < length xs
     \<and> xs ! length (takeWhile (\<lambda>v. v \<noteq> x) xs) = x
     \<and> (\<forall>j < length (takeWhile (\<lambda>v. v \<noteq> x) xs). xs ! j \<noteq> x)"
proof (induction xs)
  case Nil
  then show ?case by simp
next
  case (Cons a xs)
  show ?case
  proof (cases "a = x")
    case True
    then show ?thesis by simp
  next
    case False
    with Cons have ih: "length (takeWhile (\<lambda>v. v \<noteq> x) xs) < length xs
        \<and> xs ! length (takeWhile (\<lambda>v. v \<noteq> x) xs) = x
        \<and> (\<forall>j < length (takeWhile (\<lambda>v. v \<noteq> x) xs). xs ! j \<noteq> x)"
      by simp
    with False show ?thesis
      by (auto simp: nth_Cons split: nat.splits)
  qed
qed


subsection \<open>Advancing to the next video\<close>

text \<open>
  A Go slice has at most \<open>2^63 - 1\<close> elements, so an index next to a position of the
  playlist is incremented without wrap-around.
\<close>

lemma go_int_add_1:
  "- 1 \<le> i \<Longrightarrow> i < 9223372036854775807 \<Longrightarrow> go_int_add i 1 = i + 1"
  by (simp add: go_int_add_def)

lemma nextVideo_advance:
  assumes "0 \<le> Index (ps p) + 1" and "Index (ps p) + 1 < int (length (Playlist (ps p)))"
    and "int (length (Playlist (ps p))) \<le> 9223372036854775807"
  shows "nextVideo p
     = Inr (p\<lparr>ps := (ps p)\<lparr>Index := Index (ps p) + 1, State := STATE_BUFFERING,
                           bufferingPosition := 0, previousState := STATE_STOPPED\<rparr>,
             trace := trace p @
               [stateChange_send STATE_BUFFERING 0,
                go_GetStream_callback (Playlist (ps p) ! nat (Index (ps p) + 1)) 0]\<rparr>)"
proof -
  from assms have "go_int_add (Index (ps p)) 1 = Index (ps p) + 1"
    by (intro go_int_add_1) simp_all
  with assms(1,2) show ?thesis
    by (simp add: nextVideo_def startPlaying_def setPlayState_def go_index_def Let_def
        emit_def)
qed

lemma nextVideo_last:
  assumes "0 \<le> Index (ps p)" and "Index (ps p) + 1 = int (length (Playlist (ps p)))"
    and "int (length (Playlist (ps p))) \<le> 9223372036854775807"
  shows "nextVideo p
     = Inr (p\<lparr>ps := (ps p)\<lparr>State := STATE_STOPPED, bufferingPosition := - 1,
                           previousState := State (ps p)\<rparr>,
             trace := trace p @
               [stateChange_send STATE_STOPPED
                  (if State (ps p) = STATE_SEEKING \<and> bufferingPosition (ps p) \<noteq> - 1
                   then bufferingPosition (ps p) else 0)]\<rparr>)"
proof -
  from assms have "go_int_add (Index (ps p)) 1 = Index (ps p) + 1"
    by (intro go_int_add_1) simp_all
  with assms(2) show ?thesis
    by (simp add: nextVideo_def setPlayState_def getPosition_def Let_def emit_def)
qed

subsection \<open>Seeking while paused\<close>

lemma Seek_while_paused_completes:
  assumes "\<not> playstateChan_closed p" and "State (ps p) = STATE_PAUSED" and "0 \<le> t"
    and "nextState (ps p) = None \<or> nextState (ps p) = Some STATE_PAUSED"
    and "p1 = p\<lparr>ps := (ps p)\<lparr>State := STATE_SEEKING, previousState := STATE_PAUSED,
                               bufferingPosition := t\<rparr>,
                 trace := trace p @ [stateChange_send STATE_SEEKING t, player_setPosition t]\<rparr>"
  shows "Seek t p = Inr p1"
    and "run_event (Some STATE_PLAYING) p1
      = Inr (p1\<lparr>ps := (ps p1)\<lparr>State := STATE_PAUSED, previousState := STATE_SEEKING,
                              bufferingPosition := - 1, newVolume := False\<rparr>,
               trace := trace p1 @
                 (if newVolume (ps p) then [player_setVolume (Volume (ps p))] else []) @
                 [stateChange_send STATE_PAUSED t]\<rparr>)"
  using assms
  by (auto simp: Seek_def run_event_def getPlayState_def setPlayState_def Let_def emit_def)

subsection \<open>The buffering position\<close>






lemma bufferingPosition_set_cong:
  "State s' = State s \<Longrightarrow> bufferingPosition s' = bufferingPosition s \<Longrightarrow>
     bufferingPosition_set s' = bufferingPosition_set s"
  by (simp add: bufferingPosition_set_def)




subsection \<open>The claims\<close>

text \<open>
  C1 (as stated). "For every sequence of SetVolume and ChangeVolume calls the volume is
  within [0,100]; both operations clamp." \<^verbatim>\<open>SetVolume\<close> does not clamp: it stores its
  argument as it is. On the freshly started coordinator, \<^verbatim>\<open>SetVolume(150)\<close> leaves the
  volume at 150 and reports 150 to the caller.
\<close>

theorem C1_SetVolume_does_not_clamp:
  "SetVolume 150 (run_init 80) =
     Inr ((run_init 80)\<lparr>ps := (ps (run_init 80))\<lparr>Volume := 150, newVolume := True\<rparr>,
                         trace := [volumeChan_send 150]\<rparr>)
   \<and> \<not> (case SetVolume 150 (run_init 80) of
          Inl e \<Rightarrow> True
        | Inr p \<Rightarrow> 0 \<le> Volume (ps p) \<and> Volume (ps p) \<le> 100)"
  by (simp add: SetVolume_def getPlayState_def applyVolume_def run_init_def emit_def)

text \<open>
  C1 (amended). \<^verbatim>\<open>ChangeVolume\<close> clamps the stored volume into [0,100] for every delta
  and every previous volume (also when the 64-bit addition wraps around);
  \<^verbatim>\<open>SetVolume\<close> stores the value it is given. Hence, from a volume within [0,100], the
  volume is within [0,100] after every sequence of inputs in which each \<^verbatim>\<open>SetVolume\<close>
  argument lies within [0,100], as its documentation asks; no other handler writes the
  volume.
\<close>

theorem C1_volume_in_range:
  "(run_inputs ins p = Inr p' \<longrightarrow> list_all SetVolume_arg_in_range ins \<longrightarrow>
      0 \<le> Volume (ps p) \<and> Volume (ps p) \<le> 100 \<longrightarrow>
      0 \<le> Volume (ps p') \<and> Volume (ps p') \<le> 100)
   \<and> (\<not> playstateChan_closed q \<longrightarrow>
        (case ChangeVolume delta q of
           Inl e \<Rightarrow> False
         | Inr q' \<Rightarrow> 0 \<le> Volume (ps q') \<and> Volume (ps q') \<le> 100))
   \<and> (\<not> playstateChan_closed q \<longrightarrow>
        (case SetVolume volume q of
           Inl e \<Rightarrow> False
         | Inr q' \<Rightarrow> Volume (ps q') = volume))"
proof -
  have seq: "run_inputs ins p = Inr p' \<longrightarrow> list_all SetVolume_arg_in_range ins \<longrightarrow>
      0 \<le> Volume (ps p) \<and> Volume (ps p) \<le> 100 \<longrightarrow>
      0 \<le> Volume (ps p') \<and> Volume (ps p') \<le> 100"
    using run_inputs_Volume_range [of ins p p'] by blast
  have chg: "\<not> playstateChan_closed q \<longrightarrow>
      (case ChangeVolume delta q of
         Inl e \<Rightarrow> False
       | Inr q' \<Rightarrow> 0 \<le> Volume (ps q') \<and> Volume (ps q') \<le> 100)"
    by (simp add: ChangeVolume_def getPlayState_def applyVolume_def Let_def emit_def)
  have set: "\<not> playstateChan_closed q \<longrightarrow>
      (case SetVolume volume q of Inl e \<Rightarrow> False | Inr q' \<Rightarrow> Volume (ps q') = volume)"
    by (simp add: SetVolume_def getPlayState_def applyVolume_def Let_def emit_def)
  from seq chg set show ?thesis
    by (intro conjI)
qed

theorem C1_volume_in_range_witness:
  "run_inputs [Call_ChangeVolume 50, Call_SetVolume 30, Call_ChangeVolume 9223372036854775807,
      Call_ChangeVolume (- 200), Call_ChangeVolume 7] (run_init 80)
     = Inr ((run_init 80)\<lparr>ps := (ps (run_init 80))\<lparr>Volume := 7, newVolume := True\<rparr>,
             trace := [volumeChan_send 100, volumeChan_send 30, volumeChan_send 0,
                       volumeChan_send 0, volumeChan_send 7]\<rparr>)
   \<and> list_all SetVolume_arg_in_range [Call_ChangeVolume 50, Call_SetVolume 30,
        Call_ChangeVolume 9223372036854775807, Call_ChangeVolume (- 200), Call_ChangeVolume 7]
   \<and> 0 \<le> Volume (ps (run_init 80)) \<and> Volume (ps (run_init 80)) \<le> 100
   \<and> \<not> playstateChan_closed (run_init 80)
   \<and> ChangeVolume 9223372036854775807 (run_init 80)
       = Inr ((run_init 80)\<lparr>ps := (ps (run_init 80))\<lparr>Volume := 0, newVolume := True\<rparr>,
             trace := [volumeChan_send 0]\<rparr>)"
  using C1_volume_in_range [of "[Call_ChangeVolume 50, Call_SetVolume 30,
      Call_ChangeVolume 9223372036854775807, Call_ChangeVolume (- 200), Call_ChangeVolume 7]"
      "run_init 80"
      "(run_init 80)\<lparr>ps := (ps (run_init 80))\<lparr>Volume := 7, newVolume := True\<rparr>,
             trace := [volumeChan_send 100, volumeChan_send 30, volumeChan_send 0,
                       volumeChan_send 0, volumeChan_send 7]\<rparr>"
      "run_init 80" 9223372036854775807 30]
  by (simp add: eval_defs)




text \<open>
  C3. When a track ends (backend stopped event while Playing or Paused) or stream
  resolution returns an empty URL for the current track, the coordinator advances: if
  index+1 is a valid position in the playlist, the index is incremented and the state
  becomes Buffering with position 0; if the current track was the last one, the state
  becomes Stopped, an event with state Stopped and position 0 is emitted, and the
  playlist is left unchanged.

  For the last track \<^verbatim>\<open>nextVideo\<close> calls \<^verbatim>\<open>setPlayState(ps, STATE_STOPPED, 0)\<close>, under
  the comment "this resets the position but keeps the playlist". But \<^verbatim>\<open>setPlayState\<close>
  replaces the position it is given by the pending seek position whenever the state is
  Seeking, so the event does not carry 0 there. In the run below video A is paused and
  resumed, and before the backend has reported the resume the playlist is replaced by
  the single video B, whose stream starts being resolved. Then the backend's Playing
  event (for the resume) arrives, and the user seeks to 7. The resolution of B now
  returns the empty URL: B is the current and the last track, the state becomes
  Stopped, and the event sent is Stopped at position 7.
\<close>

theorem C3_stopped_event_carries_seek_position:
  "run_inputs [Call_SetPlaystate [''A''] 0 0, Resolved ''A'' 0 ''url'',
       Backend_position (Some 0), Event (Some STATE_PLAYING), Call_Pause,
       Event (Some STATE_PAUSED), Backend_position (Some 12), Call_Play,
       Call_SetPlaystate [''B''] 0 0, Event (Some STATE_PLAYING), Call_Seek 7] (run_init 80)
     = Inr \<lparr>ps = \<lparr>Playlist = [''B''], Index = 0, State = STATE_SEEKING, Volume = 80,
                 bufferingPosition = 7, previousState = STATE_PLAYING,
                 nextState = None, newVolume = False\<rparr>,
           playstateChan_closed = False, player_position = Some 12,
           trace = [stateChange_send STATE_BUFFERING 0, go_GetStream_callback ''A'' 0,
              player_play ''url'' 0 (- 1), go_prefetchVideoStream [],
              stateChange_send STATE_PLAYING 0, player_pause,
              stateChange_send STATE_PAUSED 0, player_resume,
              stateChange_send STATE_BUFFERING 0, go_GetStream_callback ''B'' 0,
              stateChange_send STATE_PLAYING 12, stateChange_send STATE_SEEKING 7,
              player_setPosition 7]\<rparr>
   \<and> startPlaying_callback ''B'' 0 []
        \<lparr>ps = \<lparr>Playlist = [''B''], Index = 0, State = STATE_SEEKING, Volume = 80,
                 bufferingPosition = 7, previousState = STATE_PLAYING,
                 nextState = None, newVolume = False\<rparr>,
           playstateChan_closed = False, player_position = Some 12,
           trace = [stateChange_send STATE_BUFFERING 0, go_GetStream_callback ''A'' 0,
              player_play ''url'' 0 (- 1), go_prefetchVideoStream [],
              stateChange_send STATE_PLAYING 0, player_pause,
              stateChange_send STATE_PAUSED 0, player_resume,
              stateChange_send STATE_BUFFERING 0, go_GetStream_callback ''B'' 0,
              stateChange_send STATE_PLAYING 12, stateChange_send STATE_SEEKING 7,
              player_setPosition 7]\<rparr>
     = Inr \<lparr>ps = \<lparr>Playlist = [''B''], Index = 0, State = STATE_STOPPED, Volume = 80,
                 bufferingPosition = - 1, previousState = STATE_SEEKING,
                 nextState = None, newVolume = False\<rparr>,
           playstateChan_closed = False, player_position = Some 12,
           trace = [stateChange_send STATE_BUFFERING 0, go_GetStream_callback ''A'' 0,
              player_play ''url'' 0 (- 1), go_prefetchVideoStream [],
              stateChange_send STATE_PLAYING 0, player_pause,
              stateChange_send STATE_PAUSED 0, player_resume,
              stateChange_send STATE_BUFFERING 0, go_GetStream_callback ''B'' 0,
              stateChange_send STATE_PLAYING 12, stateChange_send STATE_SEEKING 7,
              player_setPosition 7,
              log_Print WARNING_empty_stream_URL, stateChange_send STATE_STOPPED 7]\<rparr>"
  by (simp add: eval_defs)

text \<open>
  Apart from that, the code advances as described, for both triggers: with index+1 a
  position of the playlist the index is incremented, the state becomes Buffering with
  position 0 and the resolution of the next track is started; on the last track the
  state becomes Stopped, one event with state Stopped is sent and playlist and index
  stay as they are. The position of that event is 0 after a stopped event while
  Playing or Paused, and after an empty URL in every state but Seeking.
\<close>

theorem track_end_advances_or_stops:
  assumes "\<not> playstateChan_closed p"
    and "int (length (Playlist (ps p))) \<le> 9223372036854775807"
  shows "(State (ps p) = STATE_PLAYING \<or> State (ps p) = STATE_PAUSED \<longrightarrow>
          0 \<le> Index (ps p) + 1 \<and> Index (ps p) + 1 < int (length (Playlist (ps p))) \<longrightarrow>
          run_event (Some STATE_STOPPED) p
            = Inr (p\<lparr>ps := (ps p)\<lparr>Index := Index (ps p) + 1, State := STATE_BUFFERING,
                                  bufferingPosition := 0, previousState := STATE_STOPPED\<rparr>,
                    trace := trace p @
                      [stateChange_send STATE_BUFFERING 0,
                       go_GetStream_callback (Playlist (ps p) ! nat (Index (ps p) + 1)) 0]\<rparr>))
       \<and> (State (ps p) = STATE_PLAYING \<or> State (ps p) = STATE_PAUSED \<longrightarrow>
          0 \<le> Index (ps p) \<and> Index (ps p) + 1 = int (length (Playlist (ps p))) \<longrightarrow>
          run_event (Some STATE_STOPPED) p
            = Inr (p\<lparr>ps := (ps p)\<lparr>State := STATE_STOPPED, bufferingPosition := - 1,
                                  previousState := State (ps p)\<rparr>,
                    trace := trace p @ [stateChange_send STATE_STOPPED 0]\<rparr>))
       \<and> (Video (ps p) = videoId \<longrightarrow>
          0 \<le> Index (ps p) + 1 \<and> Index (ps p) + 1 < int (length (Playlist (ps p))) \<longrightarrow>
          startPlaying_callback videoId position [] p
            = Inr (p\<lparr>ps := (ps p)\<lparr>Index := Index (ps p) + 1, State := STATE_BUFFERING,
                                  bufferingPosition := 0, previousState := STATE_STOPPED\<rparr>,
                    trace := trace p @
                      [log_Print WARNING_empty_stream_URL,
                       stateChange_send STATE_BUFFERING 0,
                       go_GetStream_callback (Playlist (ps p) ! nat (Index (ps p) + 1)) 0]\<rparr>))
       \<and> (Video (ps p) = videoId \<longrightarrow>
          0 \<le> Index (ps p) \<and> Index (ps p) + 1 = int (length (Playlist (ps p))) \<longrightarrow>
          startPlaying_callback videoId position [] p
            = Inr (p\<lparr>ps := (ps p)\<lparr>State := STATE_STOPPED, bufferingPosition := - 1,
                                  previousState := State (ps p)\<rparr>,
                    trace := trace p @
                      [log_Print WARNING_empty_stream_URL,
                       stateChange_send STATE_STOPPED
                         (if State (ps p) = STATE_SEEKING \<and> bufferingPosition (ps p) \<noteq> - 1
                          then bufferingPosition (ps p) else 0)]\<rparr>))"
proof -
  have ev: "State (ps p) = STATE_PLAYING \<or> State (ps p) = STATE_PAUSED \<Longrightarrow>
      run_event (Some STATE_STOPPED) p = nextVideo p"
    using assms by (auto simp: run_event_def)
  have cb: "Video (ps p) = videoId \<Longrightarrow>
      startPlaying_callback videoId position [] p
        = nextVideo (p\<lparr>trace := trace p @ [log_Print WARNING_empty_stream_URL]\<rparr>)"
    using assms by (simp add: startPlaying_callback_def getPlayState_def emit_def)
  show ?thesis
    using assms(2)
    by (intro conjI impI) (auto simp: ev cb nextVideo_advance nextVideo_last)
qed

theorem track_end_advances_or_stops_example:
  "run_event (Some STATE_STOPPED)
      ((run_init 80)\<lparr>ps := (ps (run_init 80))\<lparr>Playlist := [''A'', ''B''],
                                                State := STATE_PLAYING\<rparr>\<rparr>)
     = Inr ((run_init 80)\<lparr>ps := (ps (run_init 80))
                               \<lparr>Playlist := [''A'', ''B''], Index := 1,
                                  State := STATE_BUFFERING\<rparr>,
                           trace := [stateChange_send STATE_BUFFERING 0,
                                     go_GetStream_callback ''B'' 0]\<rparr>)
   \<and> run_event (Some STATE_STOPPED)
      ((run_init 80)\<lparr>ps := (ps (run_init 80))\<lparr>Playlist := [''A'', ''B''], Index := 1,
                                                State := STATE_PAUSED\<rparr>\<rparr>)
     = Inr ((run_init 80)\<lparr>ps := (ps (run_init 80))
                               \<lparr>Playlist := [''A'', ''B''], Index := 1,
                                  State := STATE_STOPPED, bufferingPosition := - 1,
                                  previousState := STATE_PAUSED\<rparr>,
                           trace := [stateChange_send STATE_STOPPED 0]\<rparr>)
   \<and> startPlaying_callback ''B'' 0 []
      ((run_init 80)\<lparr>ps := (ps (run_init 80))\<lparr>Playlist := [''A'', ''B'', ''C''], Index := 1,
                                                State := STATE_BUFFERING\<rparr>\<rparr>)
     = Inr ((run_init 80)\<lparr>ps := (ps (run_init 80))
                               \<lparr>Playlist := [''A'', ''B'', ''C''], Index := 2,
                                  State := STATE_BUFFERING\<rparr>,
                           trace := [log_Print WARNING_empty_stream_URL,
                                     stateChange_send STATE_BUFFERING 0,
                                     go_GetStream_callback ''C'' 0]\<rparr>)
   \<and> startPlaying_callback ''A'' 0 []
      ((run_init 80)\<lparr>ps := (ps (run_init 80))\<lparr>Playlist := [''A''],
                                                State := STATE_BUFFERING\<rparr>\<rparr>)
     = Inr ((run_init 80)\<lparr>ps := (ps (run_init 80))
                               \<lparr>Playlist := [''A''], State := STATE_STOPPED,
                                  bufferingPosition := - 1,
                                  previousState := STATE_BUFFERING\<rparr>,
                           trace := [log_Print WARNING_empty_stream_URL,
                                     stateChange_send STATE_STOPPED 0]\<rparr>)"
proof -
  let ?p1 = "(run_init 80)\<lparr>ps := (ps (run_init 80))\<lparr>Playlist := [''A'', ''B''],
                                                State := STATE_PLAYING\<rparr>\<rparr>"
  let ?p2 = "(run_init 80)\<lparr>ps := (ps (run_init 80))\<lparr>Playlist := [''A'', ''B''], Index := 1,
                                                State := STATE_PAUSED\<rparr>\<rparr>"
  let ?p3 = "(run_init 80)\<lparr>ps := (ps (run_init 80))\<lparr>Playlist := [''A'', ''B'', ''C''],
                                                Index := 1, State := STATE_BUFFERING\<rparr>\<rparr>"
  let ?p4 = "(run_init 80)\<lparr>ps := (ps (run_init 80))\<lparr>Playlist := [''A''],
                                                State := STATE_BUFFERING\<rparr>\<rparr>"
  have o1: "\<not> playstateChan_closed ?p1" and o2: "\<not> playstateChan_closed ?p2"
    and o3: "\<not> playstateChan_closed ?p3" and o4: "\<not> playstateChan_closed ?p4"
    by (simp_all add: run_init_def)
  have v3: "Video (ps ?p3) = ''B''" and v4: "Video (ps ?p4) = ''A''"
    by (simp_all add: run_init_def Video_def)
  have l1: "int (length (Playlist (ps ?p1))) \<le> 9223372036854775807"
    and l2: "int (length (Playlist (ps ?p2))) \<le> 9223372036854775807"
    and l3: "int (length (Playlist (ps ?p3))) \<le> 9223372036854775807"
    and l4: "int (length (Playlist (ps ?p4))) \<le> 9223372036854775807"
    by simp_all
  from track_end_advances_or_stops [OF o1 l1, of "''x''" 0]
    track_end_advances_or_stops [OF o2 l2, of "''x''" 0]
    track_end_advances_or_stops [OF o3 l3, of "''B''" 0]
    track_end_advances_or_stops [OF o4 l4, of "''A''" 0] v3 v4
  show ?thesis
    by (simp add: run_init_def)
qed

text \<open>
  C4. For every playlist update while the current playlist is non-empty, the
  coordinator re-locates the identifier at the current index inside the new playlist
  by value: if it occurs more than once, the new index is the first occurrence and a
  warning is logged; if it occurs zero times, the coordinator fails with the contract
  panic "current video does not exist in new playlist".

  \<^verbatim>\<open>updatePlaylist\<close> reads \<^verbatim>\<open>ps.Playlist[ps.Index]\<close> without a check, and the index
  need not be a position of a non-empty playlist. In the run below the empty playlist
  of the freshly started coordinator is updated with an empty playlist, which sets the
  index to \<^verbatim>\<open>len(playlist) - 1 = -1\<close>, and then with the playlist A, which keeps the
  index (it is not at or past the new length). The playlist is now non-empty with index
  -1, and the next update aborts with Go's index panic: nothing is re-located, and the
  panic is not the contract panic.
\<close>

theorem C4_update_with_index_outside_playlist:
  "run_inputs [Call_UpdatePlaylist [], Call_UpdatePlaylist [''A'']] (run_init 80)
     = Inr ((run_init 80)\<lparr>ps := (ps (run_init 80))\<lparr>Playlist := [''A''], Index := - 1\<rparr>,
                           trace := [go_prefetchVideoStream ''A'']\<rparr>)
   \<and> updatePlaylist [''A'', ''B'']
        ((run_init 80)\<lparr>ps := (ps (run_init 80))\<lparr>Playlist := [''A''], Index := - 1\<rparr>,
                         trace := [go_prefetchVideoStream ''A'']\<rparr>)
     = Inl index_out_of_range
   \<and> run_inputs [Call_UpdatePlaylist [], Call_UpdatePlaylist [''A''],
        Call_UpdatePlaylist [''A'', ''B'']] (run_init 80)
     = Inl index_out_of_range"
  by (simp add: eval_defs)

text \<open>
  Whenever the index is a position of the non-empty playlist, the code does what C4
  says: the identifier at the index is looked up by value in the new playlist; if it
  does not occur there, the update aborts with the contract panic; if it occurs, the new
  playlist is installed and the index becomes the position of the first occurrence, a
  warning is logged exactly when the identifier occurs more than once, and nothing else
  in the play state changes. \<^verbatim>\<open>UpdatePlaylist\<close> and the early exit of \<^verbatim>\<open>SetPlaystate\<close>
  both go through \<^verbatim>\<open>updatePlaylist\<close>.
\<close>

theorem updatePlaylist_relocates:
  assumes "Playlist (ps p) \<noteq> []" and "0 \<le> Index (ps p)"
    and "Index (ps p) < int (length (Playlist (ps p)))"
    and "videoId = Playlist (ps p) ! nat (Index (ps p))"
    and "first = length (takeWhile (\<lambda>v. v \<noteq> videoId) playlist)"
    and "s' = (ps p)\<lparr>Playlist := playlist, Index := int first\<rparr>"
  shows "(videoId \<notin> set playlist \<longrightarrow>
            updatePlaylist playlist p = Inl current_video_does_not_exist_in_new_playlist)
       \<and> (videoId \<in> set playlist \<longrightarrow>
            first < length playlist \<and> playlist ! first = videoId
            \<and> (\<forall>j < first. playlist ! j \<noteq> videoId)
            \<and> updatePlaylist playlist p
                = Inr (p\<lparr>ps := s',
                        trace := trace p @
                          (if 1 < count_list playlist videoId
                           then [log_Print WARNING_videoId_exists_twice_in_playlist] else []) @
                          (if NextVideo s' \<noteq> NextVideo (ps p)
                           then [go_prefetchVideoStream (NextVideo s')] else [])\<rparr>))"
proof -
  have absent: "videoId \<notin> set playlist \<Longrightarrow>
      updatePlaylist playlist p = Inl current_video_does_not_exist_in_new_playlist"
    using assms(1-4)
    by (simp add: updatePlaylist_def Let_def go_index_def setPlaylistIndex_absent)
  have pos: "videoId \<in> set playlist \<Longrightarrow>
      first < length playlist \<and> playlist ! first = videoId
      \<and> (\<forall>j < first. playlist ! j \<noteq> videoId)"
    using first_occurrence [of videoId playlist] assms(5) by simp
  have present: "videoId \<in> set playlist \<Longrightarrow>
      updatePlaylist playlist p
        = Inr (p\<lparr>ps := s',
                trace := trace p @
                  (if 1 < count_list playlist videoId
                   then [log_Print WARNING_videoId_exists_twice_in_playlist] else []) @
                  (if NextVideo s' \<noteq> NextVideo (ps p)
                   then [go_prefetchVideoStream (NextVideo s')] else [])\<rparr>)"
    using assms
    by (simp add: updatePlaylist_def Let_def go_index_def setPlaylistIndex_present emit_def)
  from absent pos present show ?thesis
    by blast
qed

theorem updatePlaylist_relocates_example:
  "run_inputs [Call_SetPlaystate [''A'', ''B'', ''C''] 1 0] (run_init 80)
     = Inr \<lparr>ps = \<lparr>Playlist = [''A'', ''B'', ''C''], Index = 1, State = STATE_BUFFERING, Volume = 80,
                 bufferingPosition = 0, previousState = STATE_STOPPED,
                 nextState = None, newVolume = False\<rparr>,
           playstateChan_closed = False, player_position = None,
           trace = [stateChange_send STATE_BUFFERING 0, go_GetStream_callback ''B'' 0]\<rparr>
   \<and> updatePlaylist [''X'', ''B'', ''Y'']
        \<lparr>ps = \<lparr>Playlist = [''A'', ''B'', ''C''], Index = 1, State = STATE_BUFFERING, Volume = 80,
                 bufferingPosition = 0, previousState = STATE_STOPPED,
                 nextState = None, newVolume = False\<rparr>,
           playstateChan_closed = False, player_position = None,
           trace = [stateChange_send STATE_BUFFERING 0, go_GetStream_callback ''B'' 0]\<rparr>
     = Inr \<lparr>ps = \<lparr>Playlist = [''X'', ''B'', ''Y''], Index = 1, State = STATE_BUFFERING, Volume = 80,
                 bufferingPosition = 0, previousState = STATE_STOPPED,
                 nextState = None, newVolume = False\<rparr>,
           playstateChan_closed = False, player_position = None,
           trace = [stateChange_send STATE_BUFFERING 0, go_GetStream_callback ''B'' 0,
              go_prefetchVideoStream ''Y'']\<rparr>
   \<and> updatePlaylist [''B'', ''C'', ''B'']
        \<lparr>ps = \<lparr>Playlist = [''A'', ''B'', ''C''], Index = 1, State = STATE_BUFFERING, Volume = 80,
                 bufferingPosition = 0, previousState = STATE_STOPPED,
                 nextState = None, newVolume = False\<rparr>,
           playstateChan_closed = False, player_position = None,
           trace = [stateChange_send STATE_BUFFERING 0, go_GetStream_callback ''B'' 0]\<rparr>
     = Inr \<lparr>ps = \<lparr>Playlist = [''B'', ''C'', ''B''], Index = 0, State = STATE_BUFFERING, Volume = 80,
                 bufferingPosition = 0, previousState = STATE_STOPPED,
                 nextState = None, newVolume = False\<rparr>,
           playstateChan_closed = False, player_position = None,
           trace = [stateChange_send STATE_BUFFERING 0, go_GetStream_callback ''B'' 0,
              log_Print WARNING_videoId_exists_twice_in_playlist]\<rparr>
   \<and> updatePlaylist [''X'', ''Y'', ''Z'']
        \<lparr>ps = \<lparr>Playlist = [''A'', ''B'', ''C''], Index = 1, State = STATE_BUFFERING, Volume = 80,
                 bufferingPosition = 0, previousState = STATE_STOPPED,
                 nextState = None, newVolume = False\<rparr>,
           playstateChan_closed = False, player_position = None,
           trace = [stateChange_send STATE_BUFFERING 0, go_GetStream_callback ''B'' 0]\<rparr>
     = Inl current_video_does_not_exist_in_new_playlist"
proof -
  let ?p = "\<lparr>ps = \<lparr>Playlist = [''A'', ''B'', ''C''], Index = 1, State = STATE_BUFFERING, Volume = 80,
                 bufferingPosition = 0, previousState = STATE_STOPPED,
                 nextState = None, newVolume = False\<rparr>,
           playstateChan_closed = False, player_position = None,
           trace = [stateChange_send STATE_BUFFERING 0, go_GetStream_callback ''B'' 0]\<rparr>"
  have run: "run_inputs [Call_SetPlaystate [''A'', ''B'', ''C''] 1 0] (run_init 80) = Inr ?p"
    by (simp add: eval_defs)
  have h: "Playlist (ps ?p) \<noteq> []" "0 \<le> Index (ps ?p)"
    "Index (ps ?p) < int (length (Playlist (ps ?p)))"
    "''B'' = Playlist (ps ?p) ! nat (Index (ps ?p))"
    by simp_all
  have f1: "1 = length (takeWhile (\<lambda>v. v \<noteq> ''B'') [''X'', ''B'', ''Y''])"
    and f2: "0 = length (takeWhile (\<lambda>v. v \<noteq> ''B'') [''B'', ''C'', ''B''])"
    and f3: "3 = length (takeWhile (\<lambda>v. v \<noteq> ''B'') [''X'', ''Y'', ''Z''])"
    by simp_all
  from updatePlaylist_relocates [OF h f1 refl] updatePlaylist_relocates [OF h f2 refl]
    updatePlaylist_relocates [OF h f3 refl] run
  show ?thesis
    by (simp add: NextVideo_def)
qed

text \<open>
  C5. For every playlist update performed while the current playlist is empty, the new
  playlist is installed, and if the previously remembered index is greater than or equal
  to the length of the new playlist, the index is set to the last valid index of the new
  playlist (len-1), not to zero.

  \<^verbatim>\<open>stop\<close> empties the playlist and leaves the state alone; its comment says that
  \<^verbatim>\<open>Stop\<close> is called before \<^verbatim>\<open>UpdatePlaylist\<close> when the playing video is removed from
  the playlist. \<^verbatim>\<open>updatePlaylist\<close>, however, asserts ("just to be sure") that the
  playlist is not empty while the state is Playing. In the run below video A is playing,
  \<^verbatim>\<open>Stop\<close> is called, and \<^verbatim>\<open>UpdatePlaylist\<close> follows before the backend's stopped event
  has arrived: the playlist is empty, the state is still Playing, and the update aborts
  with \<^verbatim>\<open>panic("empty playlist while playing")\<close> instead of installing the playlist.
\<close>

theorem C5_update_while_playing_panics:
  "run_inputs [Call_SetPlaystate [''A''] 0 0, Resolved ''A'' 0 ''url'',
       Backend_position (Some 0), Event (Some STATE_PLAYING), Call_Stop] (run_init 80)
     = Inr \<lparr>ps = \<lparr>Playlist = [], Index = 0, State = STATE_PLAYING, Volume = 80,
                   bufferingPosition = - 1, previousState = STATE_BUFFERING,
                   nextState = None, newVolume = False\<rparr>,
             playstateChan_closed = False, player_position = Some 0,
             trace = [stateChange_send STATE_BUFFERING 0, go_GetStream_callback ''A'' 0,
                      player_play ''url'' 0 (- 1), go_prefetchVideoStream [],
                      stateChange_send STATE_PLAYING 0, player_stop]\<rparr>
   \<and> run_inputs [Call_SetPlaystate [''A''] 0 0, Resolved ''A'' 0 ''url'',
       Backend_position (Some 0), Event (Some STATE_PLAYING), Call_Stop,
       Call_UpdatePlaylist [''B'']] (run_init 80)
     = Inl empty_playlist_while_playing"
  by (simp add: eval_defs)

text \<open>
  In every state but Playing the code does what C5 says: the new playlist is installed,
  and if the remembered index is greater than or equal to the length of the new
  playlist, the index is set to the length minus one, not to zero; otherwise the index
  is kept. Nothing else in the play state changes, and the only effect is the prefetch
  of the new next video, if there is one. In the state Playing every update of an empty
  playlist aborts.
\<close>

lemma updatePlaylist_empty_while_playing:
  "Playlist (ps p) = [] \<Longrightarrow> State (ps p) = STATE_PLAYING \<Longrightarrow>
     updatePlaylist playlist p = Inl empty_playlist_while_playing"
  by (simp add: updatePlaylist_def Let_def)

theorem updatePlaylist_while_empty:
  assumes "Playlist (ps p) = []" and "State (ps p) \<noteq> STATE_PLAYING"
  shows "case updatePlaylist playlist p of
           Inl e \<Rightarrow> False
         | Inr p' \<Rightarrow>
             Playlist (ps p') = playlist
             \<and> Index (ps p') =
                 (if Index (ps p) \<ge> int (length playlist) then int (length playlist) - 1
                  else Index (ps p))
             \<and> ps p' = (ps p)\<lparr>Playlist := playlist, Index := Index (ps p')\<rparr>
             \<and> trace p' = trace p @
                  (if NextVideo (ps p') \<noteq> [] then [go_prefetchVideoStream (NextVideo (ps p'))]
                   else [])"
  using assms
  by (simp add: updatePlaylist_def Let_def emit_def NextVideo_def)

theorem updatePlaylist_while_empty_example:
  "run_inputs [Call_SetPlaystate [''A'', ''B'', ''C''] 2 0, Call_Stop] (run_init 80)
     = Inr \<lparr>ps = \<lparr>Playlist = [], Index = 2, State = STATE_BUFFERING, Volume = 80,
                   bufferingPosition = 0, previousState = STATE_STOPPED,
                   nextState = None, newVolume = False\<rparr>,
             playstateChan_closed = False, player_position = None,
             trace = [stateChange_send STATE_BUFFERING 0, go_GetStream_callback ''C'' 0,
                      player_stop]\<rparr>
   \<and> updatePlaylist [''X'', ''Y'']
        \<lparr>ps = \<lparr>Playlist = [], Index = 2, State = STATE_BUFFERING, Volume = 80,
                 bufferingPosition = 0, previousState = STATE_STOPPED,
                 nextState = None, newVolume = False\<rparr>,
           playstateChan_closed = False, player_position = None,
           trace = [stateChange_send STATE_BUFFERING 0, go_GetStream_callback ''C'' 0,
                    player_stop]\<rparr>
     = Inr \<lparr>ps = \<lparr>Playlist = [''X'', ''Y''], Index = 1, State = STATE_BUFFERING, Volume = 80,
                   bufferingPosition = 0, previousState = STATE_STOPPED,
                   nextState = None, newVolume = False\<rparr>,
             playstateChan_closed = False, player_position = None,
             trace = [stateChange_send STATE_BUFFERING 0, go_GetStream_callback ''C'' 0,
                      player_stop]\<rparr>"
  using updatePlaylist_while_empty [of
      "\<lparr>ps = \<lparr>Playlist = [], Index = 2, State = STATE_BUFFERING, Volume = 80,
                 bufferingPosition = 0, previousState = STATE_STOPPED,
                 nextState = None, newVolume = False\<rparr>,
           playstateChan_closed = False, player_position = None,
           trace = [stateChange_send STATE_BUFFERING 0, go_GetStream_callback ''C'' 0,
                    player_stop]\<rparr>" "[''X'', ''Y'']"]
  by (simp add: eval_defs)

text \<open>
  C6. "A seek(t) command in state Paused moves the state to Seeking with
  bufferingPosition t, and the following seek-complete event restores the state to
  Paused and emits exactly one event (Paused, t)", when no pause or play command is
  queued during the seek. The code does so when \<^verbatim>\<open>nextState\<close> is absent
  (\<open>Seek_while_paused_completes\<close>), but the main loop clears \<^verbatim>\<open>nextState\<close> only on
  the branch that applies it. In the run below \<^verbatim>\<open>Play\<close> arrives during a seek that was
  started while playing: the queued state equals \<^verbatim>\<open>previousState\<close>, the other branch is
  taken and \<^verbatim>\<open>nextState\<close> stays Playing. After a pause, \<^verbatim>\<open>Seek(9)\<close> is followed directly
  by the seek-complete event: the state goes back to Paused, but no event is sent and
  the backend is told to resume.
\<close>

theorem C6_seek_while_paused_with_leftover_nextState:
  "run_inputs [Call_SetPlaystate [''A''] 0 0, Resolved ''A'' 0 ''url'',
       Backend_position (Some 0), Event (Some STATE_PLAYING), Call_Seek 5, Call_Play,
       Event (Some STATE_PLAYING), Call_Pause, Event (Some STATE_PAUSED)] (run_init 80)
     = Inr \<lparr>ps = \<lparr>Playlist = [''A''], Index = 0, State = STATE_PAUSED, Volume = 80,
                 bufferingPosition = - 1, previousState = STATE_PLAYING,
                 nextState = Some STATE_PLAYING, newVolume = False\<rparr>,
           playstateChan_closed = False, player_position = Some 0,
           trace = [stateChange_send STATE_BUFFERING 0, go_GetStream_callback ''A'' 0,
              player_play ''url'' 0 (- 1), go_prefetchVideoStream [],
              stateChange_send STATE_PLAYING 0,
              stateChange_send STATE_SEEKING 5, player_setPosition 5,
              stateChange_send STATE_PLAYING 5, player_pause,
              stateChange_send STATE_PAUSED 0]\<rparr>
   \<and> Seek 9
        \<lparr>ps = \<lparr>Playlist = [''A''], Index = 0, State = STATE_PAUSED, Volume = 80,
                 bufferingPosition = - 1, previousState = STATE_PLAYING,
                 nextState = Some STATE_PLAYING, newVolume = False\<rparr>,
           playstateChan_closed = False, player_position = Some 0,
           trace = [stateChange_send STATE_BUFFERING 0, go_GetStream_callback ''A'' 0,
              player_play ''url'' 0 (- 1), go_prefetchVideoStream [],
              stateChange_send STATE_PLAYING 0,
              stateChange_send STATE_SEEKING 5, player_setPosition 5,
              stateChange_send STATE_PLAYING 5, player_pause,
              stateChange_send STATE_PAUSED 0]\<rparr>
     = Inr \<lparr>ps = \<lparr>Playlist = [''A''], Index = 0, State = STATE_SEEKING, Volume = 80,
                 bufferingPosition = 9, previousState = STATE_PAUSED,
                 nextState = Some STATE_PLAYING, newVolume = False\<rparr>,
           playstateChan_closed = False, player_position = Some 0,
           trace = [stateChange_send STATE_BUFFERING 0, go_GetStream_callback ''A'' 0,
              player_play ''url'' 0 (- 1), go_prefetchVideoStream [],
              stateChange_send STATE_PLAYING 0,
              stateChange_send STATE_SEEKING 5, player_setPosition 5,
              stateChange_send STATE_PLAYING 5, player_pause,
              stateChange_send STATE_PAUSED 0,
              stateChange_send STATE_SEEKING 9, player_setPosition 9]\<rparr>
   \<and> run_event (Some STATE_PLAYING)
        \<lparr>ps = \<lparr>Playlist = [''A''], Index = 0, State = STATE_SEEKING, Volume = 80,
                 bufferingPosition = 9, previousState = STATE_PAUSED,
                 nextState = Some STATE_PLAYING, newVolume = False\<rparr>,
           playstateChan_closed = False, player_position = Some 0,
           trace = [stateChange_send STATE_BUFFERING 0, go_GetStream_callback ''A'' 0,
              player_play ''url'' 0 (- 1), go_prefetchVideoStream [],
              stateChange_send STATE_PLAYING 0,
              stateChange_send STATE_SEEKING 5, player_setPosition 5,
              stateChange_send STATE_PLAYING 5, player_pause,
              stateChange_send STATE_PAUSED 0,
              stateChange_send STATE_SEEKING 9, player_setPosition 9]\<rparr>
     = Inr \<lparr>ps = \<lparr>Playlist = [''A''], Index = 0, State = STATE_PAUSED, Volume = 80,
                 bufferingPosition = 9, previousState = STATE_PAUSED,
                 nextState = None, newVolume = False\<rparr>,
           playstateChan_closed = False, player_position = Some 0,
           trace = [stateChange_send STATE_BUFFERING 0, go_GetStream_callback ''A'' 0,
              player_play ''url'' 0 (- 1), go_prefetchVideoStream [],
              stateChange_send STATE_PLAYING 0,
              stateChange_send STATE_SEEKING 5, player_setPosition 5,
              stateChange_send STATE_PLAYING 5, player_pause,
              stateChange_send STATE_PAUSED 0,
              stateChange_send STATE_SEEKING 9, player_setPosition 9, player_resume]\<rparr>"
  by (simp add: eval_defs)

text \<open>
  C7. A finished stream resolution is applied only if the identifier it was started for
  is still the current video (\<^verbatim>\<open>ps.Video()\<close>) when the callback runs: otherwise the
  callback only writes a log line, and neither the play state changes nor is the backend
  commanded. When the identifier is still current, a non-empty URL is played and an
  empty one advances to the next video. Likewise the prefetch callback does nothing at
  all when the next video (\<^verbatim>\<open>ps.NextVideo()\<close>) is no longer the identifier it was
  started for, and resolves it otherwise.
\<close>

theorem C7_stale_results_are_discarded:
  assumes "\<not> playstateChan_closed p"
  shows "(Video (ps p) \<noteq> videoId \<longrightarrow>
           startPlaying_callback videoId position streamUrl p
             = Inr (p\<lparr>trace := trace p @ [log_Print (Video_not_needed_anymore videoId)]\<rparr>))
       \<and> (Video (ps p) = videoId \<longrightarrow> streamUrl \<noteq> [] \<longrightarrow>
           startPlaying_callback videoId position streamUrl p
             = Inr (p\<lparr>ps := (ps p)\<lparr>newVolume := False\<rparr>,
                     trace := trace p @
                       [player_play streamUrl position
                          (if newVolume (ps p) then Volume (ps p) else - 1),
                        go_prefetchVideoStream (NextVideo (ps p))]\<rparr>))
       \<and> (Video (ps p) = videoId \<longrightarrow> streamUrl = [] \<longrightarrow>
           startPlaying_callback videoId position streamUrl p
             = nextVideo (p\<lparr>trace := trace p @ [log_Print WARNING_empty_stream_URL]\<rparr>))
       \<and> (NextVideo (ps p) \<noteq> videoId \<longrightarrow> prefetchVideoStream videoId p = Inr p)
       \<and> (NextVideo (ps p) = videoId \<longrightarrow> videoId \<noteq> [] \<longrightarrow>
           prefetchVideoStream videoId p
             = Inr (p\<lparr>trace := trace p @ [go_GetStream videoId]\<rparr>))"
  using assms
  by (simp add: startPlaying_callback_def prefetchVideoStream_def getPlayState_def
      Let_def emit_def NextVideo_def)

theorem C7_stale_results_are_discarded_witness:
  "run_inputs [Call_SetPlaystate [''A'', ''B'', ''C''] 0 0, Call_SetVideo ''B'' 4] (run_init 80)
     = Inr \<lparr>ps = \<lparr>Playlist = [''A'', ''B'', ''C''], Index = 1, State = STATE_BUFFERING,
                   Volume = 80, bufferingPosition = 4, previousState = STATE_BUFFERING,
                   nextState = None, newVolume = False\<rparr>,
             playstateChan_closed = False, player_position = None,
             trace = [stateChange_send STATE_BUFFERING 0, go_GetStream_callback ''A'' 0,
                      stateChange_send STATE_BUFFERING 4, go_GetStream_callback ''B'' 4]\<rparr>
   \<and> startPlaying_callback ''A'' 0 ''urlA''
        \<lparr>ps = \<lparr>Playlist = [''A'', ''B'', ''C''], Index = 1, State = STATE_BUFFERING,
                 Volume = 80, bufferingPosition = 4, previousState = STATE_BUFFERING,
                 nextState = None, newVolume = False\<rparr>,
           playstateChan_closed = False, player_position = None,
           trace = [stateChange_send STATE_BUFFERING 0, go_GetStream_callback ''A'' 0,
                    stateChange_send STATE_BUFFERING 4, go_GetStream_callback ''B'' 4]\<rparr>
     = Inr \<lparr>ps = \<lparr>Playlist = [''A'', ''B'', ''C''], Index = 1, State = STATE_BUFFERING,
                   Volume = 80, bufferingPosition = 4, previousState = STATE_BUFFERING,
                   nextState = None, newVolume = False\<rparr>,
             playstateChan_closed = False, player_position = None,
             trace = [stateChange_send STATE_BUFFERING 0, go_GetStream_callback ''A'' 0,
                      stateChange_send STATE_BUFFERING 4, go_GetStream_callback ''B'' 4,
                      log_Print (Video_not_needed_anymore ''A'')]\<rparr>
   \<and> startPlaying_callback ''B'' 4 ''urlB''
        \<lparr>ps = \<lparr>Playlist = [''A'', ''B'', ''C''], Index = 1, State = STATE_BUFFERING,
                 Volume = 80, bufferingPosition = 4, previousState = STATE_BUFFERING,
                 nextState = None, newVolume = False\<rparr>,
           playstateChan_closed = False, player_position = None,
           trace = [stateChange_send STATE_BUFFERING 0, go_GetStream_callback ''A'' 0,
                    stateChange_send STATE_BUFFERING 4, go_GetStream_callback ''B'' 4]\<rparr>
     = Inr \<lparr>ps = \<lparr>Playlist = [''A'', ''B'', ''C''], Index = 1, State = STATE_BUFFERING,
                   Volume = 80, bufferingPosition = 4, previousState = STATE_BUFFERING,
                   nextState = None, newVolume = False\<rparr>,
             playstateChan_closed = False, player_position = None,
             trace = [stateChange_send STATE_BUFFERING 0, go_GetStream_callback ''A'' 0,
                      stateChange_send STATE_BUFFERING 4, go_GetStream_callback ''B'' 4,
                      player_play ''urlB'' 4 (- 1), go_prefetchVideoStream ''C'']\<rparr>
   \<and> prefetchVideoStream ''B''
        \<lparr>ps = \<lparr>Playlist = [''A'', ''B'', ''C''], Index = 1, State = STATE_BUFFERING,
                 Volume = 80, bufferingPosition = 4, previousState = STATE_BUFFERING,
                 nextState = None, newVolume = False\<rparr>,
           playstateChan_closed = False, player_position = None,
           trace = [stateChange_send STATE_BUFFERING 0, go_GetStream_callback ''A'' 0,
                    stateChange_send STATE_BUFFERING 4, go_GetStream_callback ''B'' 4]\<rparr>
     = Inr \<lparr>ps = \<lparr>Playlist = [''A'', ''B'', ''C''], Index = 1, State = STATE_BUFFERING,
                   Volume = 80, bufferingPosition = 4, previousState = STATE_BUFFERING,
                   nextState = None, newVolume = False\<rparr>,
             playstateChan_closed = False, player_position = None,
             trace = [stateChange_send STATE_BUFFERING 0, go_GetStream_callback ''A'' 0,
                      stateChange_send STATE_BUFFERING 4, go_GetStream_callback ''B'' 4]\<rparr>"
proof -
  let ?p = "\<lparr>ps = \<lparr>Playlist = [''A'', ''B'', ''C''], Index = 1, State = STATE_BUFFERING,
                 Volume = 80, bufferingPosition = 4, previousState = STATE_BUFFERING,
                 nextState = None, newVolume = False\<rparr>,
           playstateChan_closed = False, player_position = None,
           trace = [stateChange_send STATE_BUFFERING 0, go_GetStream_callback ''A'' 0,
                    stateChange_send STATE_BUFFERING 4, go_GetStream_callback ''B'' 4]\<rparr>"
  have open_chan: "\<not> playstateChan_closed ?p"
    by simp
  have run: "run_inputs [Call_SetPlaystate [''A'', ''B'', ''C''] 0 0, Call_SetVideo ''B'' 4]
      (run_init 80) = Inr ?p"
    by (simp add: eval_defs)
  have cur: "Video (ps ?p) = ''B''" and nxt: "NextVideo (ps ?p) = ''C''"
    by (simp_all add: Video_def NextVideo_def)
  from C7_stale_results_are_discarded [OF open_chan, of "''A''" 0 "''urlA''"]
    C7_stale_results_are_discarded [OF open_chan, of "''B''" 4 "''urlB''"]
    run cur nxt
  show ?thesis
    by simp
qed

text \<open>
  C8. Once the main loop has seen the backend's event channel closed it closes
  \<^verbatim>\<open>p.playstateChan\<close>; from then on every call of a public method, and every callback
  of a goroutine that asks for the play state, returns without a panic and leaves the
  play state and the trace of effects (events, backend commands, replies) as they were.
\<close>

theorem C8_calls_after_shutdown_are_noops:
  assumes "run_event None p0 = Inr p" and "list_all requests_PlayState ins"
  shows "playstateChan_closed p \<and> run_inputs ins p = Inr p"
  using assms run_event_None [of p0 p] run_inputs_closed [of p ins] by blast

theorem C8_calls_after_shutdown_are_noops_witness:
  "run_event None (run_init 80)
     = Inr ((run_init 80)\<lparr>playstateChan_closed := True,
                          trace := [close_stateChange, close_playstateChan]\<rparr>)
   \<and> list_all requests_PlayState
        [Call_SetPlaystate [''A''] 0 0, Call_UpdatePlaylist [''B''], Call_SetVideo ''X'' 0,
         Call_RequestPlaylist, Call_Pause, Call_Play, Call_Seek 3, Call_SetVolume 150,
         Call_ChangeVolume 5, Call_RequestVolume, Call_Stop, Call_Quit,
         Resolved ''A'' 0 ''url'', Prefetch ''B'']
   \<and> run_inputs
        [Call_SetPlaystate [''A''] 0 0, Call_UpdatePlaylist [''B''], Call_SetVideo ''X'' 0,
         Call_RequestPlaylist, Call_Pause, Call_Play, Call_Seek 3, Call_SetVolume 150,
         Call_ChangeVolume 5, Call_RequestVolume, Call_Stop, Call_Quit,
         Resolved ''A'' 0 ''url'', Prefetch ''B'']
        ((run_init 80)\<lparr>playstateChan_closed := True,
                        trace := [close_stateChange, close_playstateChan]\<rparr>)
     = Inr ((run_init 80)\<lparr>playstateChan_closed := True,
                          trace := [close_stateChange, close_playstateChan]\<rparr>)"
proof -
  have shut: "run_event None (run_init 80)
     = Inr ((run_init 80)\<lparr>playstateChan_closed := True,
                          trace := [close_stateChange, close_playstateChan]\<rparr>)"
    by (simp add: run_event_def run_init_def emit_def)
  have calls: "list_all requests_PlayState
        [Call_SetPlaystate [''A''] 0 0, Call_UpdatePlaylist [''B''], Call_SetVideo ''X'' 0,
         Call_RequestPlaylist, Call_Pause, Call_Play, Call_Seek 3, Call_SetVolume 150,
         Call_ChangeVolume 5, Call_RequestVolume, Call_Stop, Call_Quit,
         Resolved ''A'' 0 ''url'', Prefetch ''B'']"
    by simp
  from C8_calls_after_shutdown_are_noops [OF shut calls] shut calls show ?thesis
    by simp
qed

text \<open>
  C9. Calling \<^verbatim>\<open>Seek\<close> while the state is Stopped does not validate the playlist:
  \<^verbatim>\<open>startPlaying\<close> indexes \<^verbatim>\<open>Playlist[Index]\<close> without a bounds check, so for an empty
  playlist (or an index at or past the playlist's length) Seek-while-Stopped aborts with
  a panic instead of being ignored, whereas Play-while-Stopped checks the index first
  and ignores the call with a warning.

  The warning of \<^verbatim>\<open>Play\<close> reads "invalid index or empty playlist", but the check is
  \<^verbatim>\<open>ps.Index >= len(ps.Playlist)\<close> only. Updating the empty playlist of the freshly
  started coordinator with an empty playlist sets the index to
  \<^verbatim>\<open>len(playlist) - 1 = -1\<close>; then the playlist is empty, the state is Stopped, the
  check lets the index through and \<^verbatim>\<open>Play\<close> panics in \<^verbatim>\<open>startPlaying\<close> like \<^verbatim>\<open>Seek\<close>
  does. The same happens after \<^verbatim>\<open>SetPlaystate\<close> has stored an empty playlist with a
  negative index.
\<close>

theorem C9_Play_on_empty_playlist_panics:
  "run_inputs [Call_UpdatePlaylist []] (run_init 80)
     = Inr ((run_init 80)\<lparr>ps := (ps (run_init 80))\<lparr>Index := - 1\<rparr>\<rparr>)
   \<and> Playlist (ps ((run_init 80)\<lparr>ps := (ps (run_init 80))\<lparr>Index := - 1\<rparr>\<rparr>)) = []
   \<and> State (ps ((run_init 80)\<lparr>ps := (ps (run_init 80))\<lparr>Index := - 1\<rparr>\<rparr>)) = STATE_STOPPED
   \<and> Play ((run_init 80)\<lparr>ps := (ps (run_init 80))\<lparr>Index := - 1\<rparr>\<rparr>) = Inl index_out_of_range
   \<and> run_inputs [Call_UpdatePlaylist [], Call_Play] (run_init 80) = Inl index_out_of_range
   \<and> run_inputs [Call_SetPlaystate [] (- 1) 0] (run_init 80)
     = Inr ((run_init 80)\<lparr>ps := (ps (run_init 80))\<lparr>Index := - 1\<rparr>, trace := [player_stop]\<rparr>)
   \<and> run_inputs [Call_SetPlaystate [] (- 1) 0, Call_Play] (run_init 80)
     = Inl index_out_of_range"
  by (simp add: eval_defs)

text \<open>
  The rest of C9 holds. Whenever the index is not a position of the playlist (always so
  for an empty playlist) Seek-while-Stopped aborts with a panic instead of being
  ignored: the index panic, or, for the position -1, the panic of \<^verbatim>\<open>getPosition\<close>
  before it. And for an index at or past the playlist's length Play-while-Stopped logs
  the warning and changes nothing.
\<close>

theorem Seek_while_stopped_panics:
  assumes "\<not> playstateChan_closed p" and "State (ps p) = STATE_STOPPED"
  shows "(\<not> (0 \<le> Index (ps p) \<and> Index (ps p) < int (length (Playlist (ps p)))) \<longrightarrow>
            Seek position p
              = Inl (if position = - 1 then got_position_lt_0 else index_out_of_range))
       \<and> (int (length (Playlist (ps p))) \<le> Index (ps p) \<longrightarrow>
            Play p = Inr (p\<lparr>trace := trace p @
                               [log_Print Warning_invalid_index_or_empty_playlist]\<rparr>))"
  using assms
  by (auto simp add: Seek_def Play_def getPlayState_def startPlaying_def setPlayState_def
      Let_def emit_def getPosition_def go_index_def)

theorem Seek_while_stopped_panics_example:
  "\<not> playstateChan_closed (run_init 80) \<and> State (ps (run_init 80)) = STATE_STOPPED
   \<and> \<not> (0 \<le> Index (ps (run_init 80))
        \<and> Index (ps (run_init 80)) < int (length (Playlist (ps (run_init 80)))))
   \<and> int (length (Playlist (ps (run_init 80)))) \<le> Index (ps (run_init 80))
   \<and> Seek 3 (run_init 80) = Inl index_out_of_range
   \<and> Play (run_init 80)
       = Inr ((run_init 80)\<lparr>trace := [log_Print Warning_invalid_index_or_empty_playlist]\<rparr>)"
proof -
  have a: "\<not> playstateChan_closed (run_init 80)" and b: "State (ps (run_init 80)) = STATE_STOPPED"
    and c: "int (length (Playlist (ps (run_init 80)))) \<le> Index (ps (run_init 80))"
    and d: "trace (run_init 80) = []"
    by (simp_all add: run_init_def)
  from Seek_while_stopped_panics [OF a b, of 3] c d show ?thesis
    using a b by simp
qed

text \<open>
  C10. The stop operation replaces the playlist with the empty list and sends one stop
  command to the backend; every other field of the play state, the index in
  particular, keeps its value (so the index may now be out of range for the empty
  playlist). The public \<^verbatim>\<open>Stop\<close> does exactly this unless the coordinator has shut
  down.
\<close>

theorem C10_stop_frame:
  "stop p = Inr (p\<lparr>ps := (ps p)\<lparr>Playlist := []\<rparr>, trace := trace p @ [player_stop]\<rparr>)
   \<and> Stop p = (if playstateChan_closed p then Inr p else stop p)
   \<and> (case stop p of
        Inl e \<Rightarrow> False
      | Inr p' \<Rightarrow>
          Playlist (ps p') = [] \<and> Index (ps p') = Index (ps p) \<and> State (ps p') = State (ps p)
          \<and> Volume (ps p') = Volume (ps p)
          \<and> bufferingPosition (ps p') = bufferingPosition (ps p)
          \<and> previousState (ps p') = previousState (ps p)
          \<and> nextState (ps p') = nextState (ps p) \<and> newVolume (ps p') = newVolume (ps p)
          \<and> playstateChan_closed p' = playstateChan_closed p
          \<and> trace p' = trace p @ [player_stop])"
  by (simp add: stop_def Stop_def getPlayState_def emit_def)

end
